theory Spec2Isabelle
  imports Complex_Main
begin

section \<open>Numbers and strings of the host language\<close>

text \<open>
  The numeric field state of \<^verbatim>\<open>useNumberFieldState.ts\<close> computes with JavaScript numbers
  and strings.  A number is \<open>NaN\<close> or a double, and a double is written as the decimal it
  prints as: \<open>Num (1 / 10)\<close> is the double nearest to one tenth.  Arithmetic reads the
  doubles of its operands, computes exactly and rounds to the nearest double, ties to even.
  Infinities, the sign of zero, and underflow and overflow of the exponent are not
  represented.  A string is the list of its UTF-16 code units.
\<close>

datatype jsnum = NaN | Num rat

type_synonym ustring = "nat list"

definition ustr :: "string \<Rightarrow> ustring" where
  "ustr s = map of_char s"

fun isNaN :: "jsnum \<Rightarrow> bool" where
  "isNaN NaN = True"
| "isNaN (Num x) = False"

subsection \<open>Rounding to a double\<close>

text \<open>
  A positive rational is scaled by powers of two until it lies between \<open>2 ^ 52\<close> and
  \<open>2 ^ 53\<close>, rounded to an integer with ties to the even one, and scaled back: this is the
  nearest number with a significand of 53 bits.  The scaling takes steps of 32 bits and of
  8 bits while the number is far from the interval, and single bits near it; the fuel covers
  every exponent of a double.
\<close>

fun scale2 :: "nat \<Rightarrow> rat \<Rightarrow> int \<Rightarrow> rat \<times> int" where
  "scale2 0 m e = (m, e)"
| "scale2 (Suc fuel) m e =
     (if m < 1048576 then scale2 fuel (m * 4294967296) (e - 32)
      else if m < 17592186044416 then scale2 fuel (m * 256) (e - 8)
      else if m < 4503599627370496 then scale2 fuel (m * 2) (e - 1)
      else if 38685626227668133590597632 \<le> m then scale2 fuel (m / 4294967296) (e + 32)
      else if 2305843009213693952 \<le> m then scale2 fuel (m / 256) (e + 8)
      else if 9007199254740992 \<le> m then scale2 fuel (m / 2) (e + 1)
      else (m, e))"

definition roundHalfEven :: "rat \<Rightarrow> int" where
  "roundHalfEven m =
     (let f = \<lfloor>m\<rfloor>; r = m - of_int f
      in if r < 1 / 2 then f else if 1 / 2 < r then f + 1 else if even f then f else f + 1)"

definition pow2 :: "int \<Rightarrow> rat" where
  "pow2 e = (if 0 \<le> e then 2 ^ nat e else 1 / 2 ^ nat (- e))"

definition round64pos :: "rat \<Rightarrow> rat" where
  "round64pos x = (case scale2 2200 x 0 of (m, e) \<Rightarrow> of_int (roundHalfEven m) * pow2 e)"

definition round64 :: "rat \<Rightarrow> rat" where
  "round64 x = (if x = 0 then 0 else if x < 0 then - round64pos (- x) else round64pos x)"

subsection \<open>The decimal a double prints as\<close>

text \<open>
  The language prints a double with the fewest significant digits that read back as the same
  double, at most 17, taking the digits nearest to the double.  The double is scaled by
  powers of ten to a number from 1 up to 10, and the digit counts are tried in turn.
\<close>

fun scale10 :: "nat \<Rightarrow> rat \<Rightarrow> int \<Rightarrow> rat \<times> int" where
  "scale10 0 m n = (m, n)"
| "scale10 (Suc fuel) m n =
     (if m < 1 then scale10 fuel (m * 10) (n - 1)
      else if 10 \<le> m then scale10 fuel (m / 10) (n + 1)
      else (m, n))"

definition pow10 :: "int \<Rightarrow> rat" where
  "pow10 e = (if 0 \<le> e then 10 ^ nat e else 1 / 10 ^ nat (- e))"

fun shortestFrom :: "nat \<Rightarrow> nat \<Rightarrow> rat \<Rightarrow> int \<Rightarrow> rat \<Rightarrow> rat" where
  "shortestFrom 0 k m n d = of_int (roundHalfEven (m * 10 ^ k)) * pow10 (n - int k)"
| "shortestFrom (Suc fuel) k m n d =
     (if round64pos (of_int (roundHalfEven (m * 10 ^ k)) * pow10 (n - int k)) = d
      then of_int (roundHalfEven (m * 10 ^ k)) * pow10 (n - int k)
      else shortestFrom fuel (k + 1) m n d)"

definition shortestPos :: "rat \<Rightarrow> rat" where
  "shortestPos d = (case scale10 700 d 0 of (m, n) \<Rightarrow> shortestFrom 16 0 m n d)"

definition shortest :: "rat \<Rightarrow> rat" where
  "shortest d = (if d = 0 then 0 else if d < 0 then - shortestPos (- d) else shortestPos d)"

text \<open>The number a real result becomes: the nearest double, as the decimal it prints as.\<close>

definition js_number :: "rat \<Rightarrow> jsnum" where
  "js_number x = Num (shortest (round64 x))"

subsection \<open>Operations on numbers\<close>

text \<open>
  Comparisons with \<open>NaN\<close> are false, arithmetic with \<open>NaN\<close> gives \<open>NaN\<close>.  The order of
  doubles is the order of the decimals they print as.
\<close>

fun js_lt :: "jsnum \<Rightarrow> jsnum \<Rightarrow> bool" where
  "js_lt (Num a) (Num b) = (a < b)"
| "js_lt a b = False"

fun js_le :: "jsnum \<Rightarrow> jsnum \<Rightarrow> bool" where
  "js_le (Num a) (Num b) = (a \<le> b)"
| "js_le a b = False"

definition js_gt :: "jsnum \<Rightarrow> jsnum \<Rightarrow> bool" where
  "js_gt a b = js_lt b a"

definition js_ge :: "jsnum \<Rightarrow> jsnum \<Rightarrow> bool" where
  "js_ge a b = js_le b a"

fun js_add :: "jsnum \<Rightarrow> jsnum \<Rightarrow> jsnum" where
  "js_add (Num a) (Num b) = js_number (round64 a + round64 b)"
| "js_add a b = NaN"

fun js_sub :: "jsnum \<Rightarrow> jsnum \<Rightarrow> jsnum" where
  "js_sub (Num a) (Num b) = js_number (round64 a - round64 b)"
| "js_sub a b = NaN"

fun js_mul :: "jsnum \<Rightarrow> jsnum \<Rightarrow> jsnum" where
  "js_mul (Num a) (Num b) = js_number (round64 a * round64 b)"
| "js_mul a b = NaN"

text \<open>Division; a zero divisor (an infinity in the source) does not occur in the hook.\<close>

fun js_div :: "jsnum \<Rightarrow> jsnum \<Rightarrow> jsnum" where
  "js_div (Num a) (Num b) = (if b = 0 then NaN else js_number (round64 a / round64 b))"
| "js_div a b = NaN"

text \<open>
  \<^verbatim>\<open>Math.round\<close>: the integer nearest to the double, a half rounding towards plus
  infinity.
\<close>

fun math_round :: "jsnum \<Rightarrow> jsnum" where
  "math_round (Num a) = js_number (of_int \<lfloor>round64 a + 1 / 2\<rfloor>)"
| "math_round NaN = NaN"

text \<open>\<^verbatim>\<open>x % 1 !== 0\<close>: true of a double with a fractional part, and of \<open>NaN\<close>.\<close>

fun mod1_nonzero :: "jsnum \<Rightarrow> bool" where
  "mod1_nonzero (Num a) = (of_int \<lfloor>round64 a\<rfloor> \<noteq> round64 a)"
| "mod1_nonzero NaN = True"

definition MIN_SAFE_INTEGER :: jsnum where
  "MIN_SAFE_INTEGER = Num (- 9007199254740991)"

definition MAX_SAFE_INTEGER :: jsnum where
  "MAX_SAFE_INTEGER = Num 9007199254740991"

section \<open>Numeral systems\<close>

datatype numsys = arab | hanidec | latin

text \<open>
  The digits of each system of \<^verbatim>\<open>numberingSystems\<close>, as code points (the Arabic-Indic
  digits U+0660 to U+0669, the Han decimal digits, the Latin digits), and the table itself
  in the order of the object literal, which is the order \<^verbatim>\<open>for ... in\<close> visits its keys.
\<close>

fun numerals_of :: "numsys \<Rightarrow> ustring" where
  "numerals_of arab = [1632, 1633, 1634, 1635, 1636, 1637, 1638, 1639, 1640, 1641]"
| "numerals_of hanidec = [12295, 19968, 20108, 19977, 22235, 20116, 20845, 19971, 20843, 20061]"
| "numerals_of latin = [48, 49, 50, 51, 52, 53, 54, 55, 56, 57]"

definition numberingSystems :: "(numsys \<times> ustring) list" where
  "numberingSystems =
     [(arab, numerals_of arab), (hanidec, numerals_of hanidec), (latin, numerals_of latin)]"

section \<open>State of the hook\<close>

text \<open>
  The cells the hook keeps between calls: the React states \<^verbatim>\<open>numberValue\<close>,
  \<^verbatim>\<open>inputValue\<close> and \<^verbatim>\<open>currentNumeralSystem\<close>, the refs \<^verbatim>\<open>tempNum\<close> and
  \<^verbatim>\<open>lastValDispatched\<close>, and the list of values handed to the caller's \<^verbatim>\<open>onChange\<close>
  so far (oldest first).
\<close>

record hook_state =
  numberValue :: jsnum
  inputValue :: ustring
  tempNum :: jsnum
  currentNumeralSystem :: numsys
  lastValDispatched :: jsnum
  onChangeCalls :: "jsnum list"

text \<open>
  \<^verbatim>\<open>determineNumeralSystem\<close>: the loop over \<^verbatim>\<open>numberingSystems\<close>; the first system one
  of whose numerals occurs in the text is stored and returned, and when the loop ends without
  a match the result is \<open>latin\<close> and nothing is stored.
\<close>

fun determineLoop :: "(numsys \<times> ustring) list \<Rightarrow> ustring \<Rightarrow> hook_state \<Rightarrow> numsys \<times> hook_state" where
  "determineLoop [] val st = (latin, st)"
| "determineLoop ((system, numerals) # rest) val st =
     (if list_ex (\<lambda>char. list_ex (\<lambda>numeral. numeral = char) numerals) val
      then (system, st\<lparr>currentNumeralSystem := system\<rparr>)
      else determineLoop rest val st)"

definition determineNumeralSystem :: "ustring \<Rightarrow> hook_state \<Rightarrow> numsys \<times> hook_state" where
  "determineNumeralSystem val st = determineLoop numberingSystems val st"

section \<open>Formatter, parser and props\<close>

text \<open>
  The locale-aware formatter and parser (\<^verbatim>\<open>useNumberFormatter\<close>, \<^verbatim>\<open>useNumberParser\<close>)
  are collaborators outside the hook; the model takes them as functions.  A formatted part
  is its type and its text; \<open>OtherT\<close> stands for any type the hook does not name.
\<close>

datatype part_type =
  CurrencyT | NanT | PercentSignT | GroupT | InfinityT | LiteralT | UnitT
  | MinusSignT | PlusSignT | DecimalT | FractionT | IntegerT | OtherT

type_synonym part = "part_type \<times> ustring"

text \<open>
  The props after defaulting (\<open>minValue\<close> and \<open>maxValue\<close> default to the safe integer
  bounds; an absent \<open>step\<close> is \<open>NaN\<close>, which is how \<^verbatim>\<open>isNaN(step)\<close> sees it),
  \<open>accounting\<close> for \<^verbatim>\<open>formatOptions?.currencySign === 'accounting'\<close>, \<open>percent\<close> for
  \<^verbatim>\<open>formatOptions?.style === 'percent'\<close>, and whether \<^verbatim>\<open>onChange\<close> is given.
\<close>

record props =
  minValue :: jsnum
  maxValue :: jsnum
  step :: jsnum
  accounting :: bool
  percent :: bool
  hasOnChange :: bool
  parse :: "ustring \<Rightarrow> jsnum"
  format :: "jsnum \<Rightarrow> ustring"
  formatToParts :: "jsnum \<Rightarrow> part list"

definition isMaxRange :: "props \<Rightarrow> bool" where
  "isMaxRange p = (minValue p = MIN_SAFE_INTEGER \<and> maxValue p = MAX_SAFE_INTEGER)"

section \<open>Symbol resolver\<close>

record symbols_rec =
  minusSign :: ustring
  plusSign :: ustring
  decimal :: "ustring option"
  validCharacters :: ustring
  literals :: ustring

definition find_part :: "part_type \<Rightarrow> part list \<Rightarrow> ustring option" where
  "find_part t parts = map_option snd (find (\<lambda>q. fst q = t) parts)"

text \<open>\<^verbatim>\<open>!s\<close> for an optional string: true of \<^verbatim>\<open>undefined\<close> and of the empty string.\<close>

fun falsy :: "ustring option \<Rightarrow> bool" where
  "falsy None = True"
| "falsy (Some s) = (s = [])"

text \<open>
  \<^verbatim>\<open>symbols\<close>: the signs and the decimal separator read off the parts of the two probes
  \<open>-1000.1\<close> and \<open>1000.1\<close>, and the two strings of backslash-escaped part texts (code unit
  92 is the backslash) that later go into regular expressions.
\<close>

definition symbols :: "props \<Rightarrow> symbols_rec" where
  "symbols p =
     (let allParts = formatToParts p (Num (- (10001 / 10)));
          posAllParts = formatToParts p (Num (10001 / 10));
          minusSign0 = find_part MinusSignT allParts;
          plusSign0 = find_part PlusSignT posAllParts;
          minusSign1 = (if js_ge (minValue p) (Num 0) \<or> falsy minusSign0 then [] else the minusSign0);
          plusSign1 = (if js_le (maxValue p) (Num 0) \<or> falsy plusSign0 then [] else the plusSign0);
          decimal0 = find_part DecimalT allParts;
          validCharacters0 = foldl (\<lambda>chars q.
              if fst q = FractionT \<or> fst q = IntegerT \<or> fst q = MinusSignT \<or> fst q = PlusSignT
              then chars else chars @ [92] @ snd q) [] allParts;
          literals0 = foldl (\<lambda>chars q.
              if fst q = DecimalT \<or> fst q = FractionT \<or> fst q = IntegerT \<or> fst q = MinusSignT
                 \<or> fst q = PlusSignT
              then chars else chars @ [92] @ snd q) [] allParts
      in \<lparr>minusSign = minusSign1, plusSign = plusSign1, decimal = decimal0,
          validCharacters = validCharacters0, literals = literals0\<rparr>)"

section \<open>Strings and character classes\<close>

text \<open>
  \<^verbatim>\<open>val.indexOf(pat)\<close> (\<open>-1\<close> when absent), and \<^verbatim>\<open>val.replace(pat, '')\<close> for a string
  pattern, which removes the first occurrence only.
\<close>

fun indexOf :: "ustring \<Rightarrow> ustring \<Rightarrow> int" where
  "indexOf [] pat = (if pat = [] then 0 else - 1)"
| "indexOf (c # cs) pat =
     (if take (length pat) (c # cs) = pat then 0
      else (let r = indexOf cs pat in if r < 0 then - 1 else r + 1))"

fun replace_first :: "ustring \<Rightarrow> ustring \<Rightarrow> ustring" where
  "replace_first [] pat = []"
| "replace_first (c # cs) pat =
     (if take (length pat) (c # cs) = pat then drop (length pat) (c # cs)
      else c # replace_first cs pat)"

text \<open>An argument that is \<^verbatim>\<open>undefined\<close> is converted to the string \<^verbatim>\<open>undefined\<close>.\<close>

fun pattern_of :: "ustring option \<Rightarrow> ustring" where
  "pattern_of None = ustr ''undefined''"
| "pattern_of (Some s) = s"

definition replaceAllButFirstOccurrence :: "ustring \<Rightarrow> ustring option \<Rightarrow> ustring" where
  "replaceAllButFirstOccurrence val char =
     (let first = indexOf val (pattern_of char);
          prefix = take (nat (first + 1)) val;
          suffix = replace_first (drop (nat (first + 1)) val) (pattern_of char)
      in prefix @ suffix)"

text \<open>
  The hook builds two character classes by pasting strings between brackets.  The model
  reads the body of a class in the fragment where every atom stands for itself: a backslash
  followed by a character that is no escape letter or digit (an identity escape), or a
  character other than backslash, closing bracket and hyphen; a hyphen is also read when it
  is the first atom.  A body outside the fragment (a range, a class escape such as
  \<^verbatim>\<open>\d\<close>, a dangling backslash) is \<open>None\<close>: the model does not say what the hook does
  with it.  Code units: 92 backslash, 93 closing bracket, 45 hyphen.
\<close>

definition escape_letters :: ustring where
  "escape_letters = ustr ''bcdDfknpPrsStuvwWx0123456789''"

fun classAtoms :: "ustring \<Rightarrow> ustring option" where
  "classAtoms [] = Some []"
| "classAtoms [c] = (if c = 92 \<or> c = 93 \<or> c = 45 then None else Some [c])"
| "classAtoms (c # x # rest) =
     (if c = 92 then
        (if x \<in> set escape_letters then None else map_option ((#) x) (classAtoms rest))
      else if c = 93 \<or> c = 45 then None
      else map_option ((#) c) (classAtoms (x # rest)))"

fun classBody :: "ustring \<Rightarrow> ustring option" where
  "classBody [] = Some []"
| "classBody (c # cs) =
     (if c = 45 then map_option ((#) 45) (classAtoms cs) else classAtoms (c # cs))"

text \<open>
  \<^verbatim>\<open>CURRENCY_SIGN_REGEX.test(s)\<close> for \<^verbatim>\<open>^\(.*\)$\<close>: an opening parenthesis (40) first,
  a closing one (41) last, and no line terminator in between.
\<close>

definition line_terminators :: ustring where
  "line_terminators = [10, 13, 8232, 8233]"

definition CURRENCY_SIGN_REGEX :: "ustring \<Rightarrow> bool" where
  "CURRENCY_SIGN_REGEX s =
     (2 \<le> length s \<and> hd s = 40 \<and> last s = 41
      \<and> \<not> list_ex (\<lambda>c. c \<in> set line_terminators) (butlast (tl s)))"

section \<open>Decimal-safe arithmetic\<close>

text \<open>
  \<^verbatim>\<open>Number.prototype.toString\<close> in radix 10, on the decimal a number prints as.  With \<open>s\<close>
  the significant digits, \<open>k\<close> their count and \<open>n\<close> the position of the decimal point
  (the value is \<open>s * 10 ^ (n - k)\<close>), the language prints plain digits when
  \<open>k \<le> n \<le> 21\<close>, a point inside the digits when \<open>0 < n \<le> 21\<close>, a leading \<open>0.\<close> and
  zeros when \<open>-6 < n \<le> 0\<close>, and exponent notation otherwise.  The search for the number of
  decimal places stops after 400 places (a printed double has fewer).  Code units: 48 is
  the digit zero, 46 the point, 45 the minus sign, 43 the plus sign, 101 the letter e.
\<close>

fun digitsOf :: "nat \<Rightarrow> ustring" where
  "digitsOf n = (if n < 10 then [48 + n] else digitsOf (n div 10) @ [48 + n mod 10])"

declare digitsOf.simps [simp del]

fun decimalPlaces :: "nat \<Rightarrow> rat \<Rightarrow> nat" where
  "decimalPlaces 0 a = 0"
| "decimalPlaces (Suc fuel) a =
     (if of_int \<lfloor>a\<rfloor> = a then 0 else Suc (decimalPlaces fuel (a * 10)))"

definition stripTrailingZeros :: "ustring \<Rightarrow> ustring" where
  "stripTrailingZeros ds = rev (dropWhile (\<lambda>c. c = 48) (rev ds))"

definition toStringPos :: "rat \<Rightarrow> ustring" where
  "toStringPos a =
     (let d = decimalPlaces 400 a;
          allDigits = digitsOf (nat \<lfloor>a * 10 ^ d\<rfloor>);
          s = stripTrailingZeros allDigits;
          k = int (length s);
          n = int (length allDigits) - int d
      in if k \<le> n \<and> n \<le> 21 then s @ replicate (nat (n - k)) 48
         else if 0 < n \<and> n \<le> 21 then take (nat n) s @ [46] @ drop (nat n) s
         else if - 6 < n \<and> n \<le> 0 then [48, 46] @ replicate (nat (- n)) 48 @ s
         else (let e = n - 1;
                   expo = [101, (if e < 0 then 45 else 43)] @ digitsOf (nat \<bar>e\<bar>)
               in if k = 1 then s @ expo else take 1 s @ [46] @ drop 1 s @ expo))"

fun toString :: "jsnum \<Rightarrow> ustring" where
  "toString NaN = ustr ''NaN''"
| "toString (Num x) =
     (if x = 0 then [48] else if x < 0 then 45 # toStringPos (- x) else toStringPos x)"

text \<open>\<^verbatim>\<open>s.split(sep)\<close> for a separator of one code unit.\<close>

fun split :: "nat \<Rightarrow> ustring \<Rightarrow> ustring list" where
  "split sep [] = [[]]"
| "split sep (c # cs) =
     (if c = sep then [] # split sep cs
      else (case split sep cs of [] \<Rightarrow> [[c]] | h # t \<Rightarrow> (c # h) # t))"

text \<open>\<^verbatim>\<open>(parts[1] && parts[1].length) || 0\<close>.\<close>

fun decimalLength :: "ustring list \<Rightarrow> nat" where
  "decimalLength (p0 # p1 # rest) = length p1"
| "decimalLength parts = 0"

datatype operator = Plus | Minus

definition handleDecimalOperation :: "operator \<Rightarrow> jsnum \<Rightarrow> jsnum \<Rightarrow> jsnum" where
  "handleDecimalOperation operator value1 value2 =
     (let result = (if operator = Plus then js_add value1 value2 else js_sub value1 value2)
      in if mod1_nonzero value1 \<or> mod1_nonzero value2 then
           (let value1Decimal = split 46 (toString value1);
                value2Decimal = split 46 (toString value2);
                value1DecimalLength = decimalLength value1Decimal;
                value2DecimalLength = decimalLength value2Decimal;
                multiplier = Num (10 ^ max value1DecimalLength value2DecimalLength);
                value1' = math_round (js_mul value1 multiplier);
                value2' = math_round (js_mul value2 multiplier);
                result' = (if operator = Plus then js_add value1' value2'
                           else js_sub value1' value2')
            in js_div result' multiplier)
         else result)"

section \<open>Clamping\<close>

text \<open>
  Modelled from the spec: \<^verbatim>\<open>clamp\<close> of \<^verbatim>\<open>@react-aria/utils\<close> is imported by the hook and is
  not among the sources; this is its snapping of a value within the bounds to the step grid.
  The spec has the grid as the values reachable from \<open>min\<close> by repeated addition of \<open>step\<close>
  and the result as the nearest grid value within the bounds.  One point the spec leaves
  open is fixed here: a value halfway between two grid values goes to the upper one.  A step
  that is not positive reaches no grid value within the bounds but \<open>min\<close>.
\<close>

definition snapToStep :: "rat \<Rightarrow> rat \<Rightarrow> rat \<Rightarrow> rat \<Rightarrow> rat" where
  "snapToStep c lo hi s =
     (if s \<le> 0 then lo
      else (let below = lo + of_int \<lfloor>(c - lo) / s\<rfloor> * s;
                above = below + s
            in if above \<le> hi \<and> above - c \<le> c - below then above else below))"

text \<open>
  Modelled from the spec: \<^verbatim>\<open>clamp(value, min, max, step)\<close> of \<^verbatim>\<open>@react-aria/utils\<close>, not
  among the sources.  The spec has the value clamped into \<open>[min, max]\<close> first and then
  snapped to the step grid; without a step (\<open>NaN\<close>) the clamped value stands.  \<open>NaN\<close> in the
  value or a bound gives \<open>NaN\<close>, a case the spec does not name and the hook tests for with
  \<^verbatim>\<open>isNaN\<close>.
\<close>

fun clamp :: "jsnum \<Rightarrow> jsnum \<Rightarrow> jsnum \<Rightarrow> jsnum \<Rightarrow> jsnum" where
  "clamp (Num v) (Num lo) (Num hi) NaN = Num (min (max v lo) hi)"
| "clamp (Num v) (Num lo) (Num hi) (Num s) = Num (snapToStep (min (max v lo) hi) lo hi s)"
| "clamp v lo hi s = NaN"

section \<open>Change notification and the value cell\<close>

text \<open>
  \<^verbatim>\<open>smartOnChange\<close>: the caller's \<^verbatim>\<open>onChange\<close> is called unless the value and the last
  value dispatched are both \<open>NaN\<close>; the value is then remembered as the last dispatched.
\<close>

definition smartOnChange :: "props \<Rightarrow> jsnum \<Rightarrow> hook_state \<Rightarrow> hook_state" where
  "smartOnChange p val st =
     (let st1 = (if \<not> isNaN val \<or> \<not> isNaN (lastValDispatched st)
                 then (if hasOnChange p then st\<lparr>onChangeCalls := onChangeCalls st @ [val]\<rparr> else st)
                 else st)
      in st1\<lparr>lastValDispatched := val\<rparr>)"

text \<open>\<^verbatim>\<open>a !== b\<close> on numbers: \<open>NaN\<close> differs from every number, itself included.\<close>

definition js_strict_ne :: "jsnum \<Rightarrow> jsnum \<Rightarrow> bool" where
  "js_strict_ne a b = (a \<noteq> b \<or> isNaN a)"

text \<open>
  Modelled from the spec: \<^verbatim>\<open>useControlledState\<close> of \<^verbatim>\<open>@react-stately/utils\<close>, the
  controlled-value bridge, is not among the sources.  The model is the uncontrolled field
  (no \<^verbatim>\<open>value\<close> prop): \<^verbatim>\<open>setNumberValue\<close> stores the value, and on a transition that
  changes the value it hands the new value to the change handler it was given,
  \<^verbatim>\<open>smartOnChange\<close>.  The bridge compares with \<^verbatim>\<open>!==\<close>, for which \<open>NaN\<close> is a change
  from \<open>NaN\<close>: this is the repeated call the comment above \<^verbatim>\<open>smartOnChange\<close> speaks of.
  The hook's effect on \<^verbatim>\<open>numberValue\<close> is folded in: when the stored value changes
  (\<open>NaN\<close> counts as equal to \<open>NaN\<close>, as in the dependency check of an effect), the display
  text becomes the formatted value, or the empty string for \<open>NaN\<close>.  A controlled field,
  where the caller holds the value, is outside the model; what is proved of
  \<^verbatim>\<open>smartOnChange\<close> alone holds of it too.
\<close>

definition setNumberValue :: "props \<Rightarrow> jsnum \<Rightarrow> hook_state \<Rightarrow> hook_state" where
  "setNumberValue p v st =
     (let st1 = (if js_strict_ne (numberValue st) v then smartOnChange p v st else st);
          st2 = st1\<lparr>numberValue := v\<rparr>
      in if numberValue st = v then st2
         else st2\<lparr>inputValue := (if isNaN v then [] else format p v)\<rparr>)"

section \<open>Operations of the hook\<close>

text \<open>
  \<^verbatim>\<open>increment\<close> and \<^verbatim>\<open>decrement\<close>: the base is the stored value, for an empty field the
  bound the source picks, and the pending parsed value \<^verbatim>\<open>tempNum\<close> when there is one
  (it is then cleared); the step, \<open>1\<close> when absent, is added or subtracted and the result
  clamped.
\<close>

definition increment :: "props \<Rightarrow> hook_state \<Rightarrow> hook_state" where
  "increment p st =
     (let prev = numberValue st;
          prev1 = (if isNaN prev then
                     (if isMaxRange p then Num 0
                      else if minValue p = MIN_SAFE_INTEGER then maxValue p
                      else minValue p)
                   else prev);
          prev2 = (if \<not> isNaN (tempNum st) then tempNum st else prev1);
          st1 = (if \<not> isNaN (tempNum st) then st\<lparr>tempNum := NaN\<rparr> else st);
          newValue = clamp
            (handleDecimalOperation Plus prev2 (if \<not> isNaN (step p) then step p else Num 1))
            (minValue p) (maxValue p) (step p)
      in setNumberValue p newValue st1)"


definition decrement :: "props \<Rightarrow> hook_state \<Rightarrow> hook_state" where
  "decrement p st =
     (let prev = numberValue st;
          prev1 = (if isNaN prev then
                     (if isMaxRange p then Num 0
                      else if maxValue p = MAX_SAFE_INTEGER then minValue p
                      else maxValue p)
                   else prev);
          prev2 = (if \<not> isNaN (tempNum st) then tempNum st else prev1);
          st1 = (if \<not> isNaN (tempNum st) then st\<lparr>tempNum := NaN\<rparr> else st);
          newValue = clamp
            (handleDecimalOperation Minus prev2 (if \<not> isNaN (step p) then step p else Num 1))
            (minValue p) (maxValue p) (step p)
      in setNumberValue p newValue st1)"


text \<open>
  \<^verbatim>\<open>roundValueUsingFormatter\<close>: the value is formatted to parts, the parts that are no
  part of the number are dropped, and the rest is parsed back.
\<close>

definition strippedPart :: "part \<Rightarrow> ustring" where
  "strippedPart q =
     (if fst q = CurrencyT \<or> fst q = NanT \<or> fst q = PercentSignT \<or> fst q = GroupT
         \<or> fst q = InfinityT \<or> fst q = LiteralT \<or> fst q = UnitT
      then [] else snd q)"

definition roundValueUsingFormatter :: "props \<Rightarrow> jsnum \<Rightarrow> jsnum" where
  "roundValueUsingFormatter p v =
     (let parts = formatToParts p v;
          strippedValue = concat (map strippedPart parts);
          result = parse p strippedValue;
          result1 = (if accounting p \<and> js_lt v (Num 0) then js_mul (Num (- 1)) result else result);
          result2 = (if percent p then js_div result1 (Num 100) else result1)
      in result2)"

text \<open>
  The sanitizer of \<^verbatim>\<open>setValue\<close>: the characters outside the class of signs, numerals of
  the detected system and valid characters are removed, then each of minus sign, plus sign
  and decimal separator goes through \<^verbatim>\<open>replaceAllButFirstOccurrence\<close>.
\<close>

definition sanitize :: "symbols_rec \<Rightarrow> ustring \<Rightarrow> ustring \<Rightarrow> ustring" where
  "sanitize sy allowed val =
     (let strippedValue = filter (\<lambda>c. c \<in> set allowed) val;
          strippedValue1 = replaceAllButFirstOccurrence strippedValue (Some (minusSign sy));
          strippedValue2 = replaceAllButFirstOccurrence strippedValue1 (Some (plusSign sy));
          strippedValue3 = replaceAllButFirstOccurrence strippedValue2 (decimal sy)
      in strippedValue3)"

text \<open>
  The number read from the sanitized text: the literal characters are removed, the rest is
  parsed, negated for an accounting format in parentheses and divided by 100 for a percent
  format.
\<close>

definition parsedValue :: "props \<Rightarrow> ustring \<Rightarrow> ustring \<Rightarrow> jsnum" where
  "parsedValue p lits strippedValue =
     (let parseReady = filter (\<lambda>c. c \<notin> set lits) strippedValue;
          newValue = parse p parseReady;
          newValue1 = (if accounting p \<and> CURRENCY_SIGN_REGEX strippedValue
                       then js_mul (Num (- 1)) newValue else newValue);
          newValue2 = (if percent p then js_div newValue1 (Num 100) else newValue1)
      in newValue2)"

datatype model_error = RegExpOutsideFragment

text \<open>
  The two regular expressions of \<^verbatim>\<open>setValue\<close>, as the characters their classes hold:
  the class of the first is negated, so its characters are the ones kept; the characters of
  the second are the ones removed before parsing.
\<close>

definition keptCharacters :: "props \<Rightarrow> numsys \<Rightarrow> ustring option" where
  "keptCharacters p numeralSystem =
     (let sy = symbols p
      in classBody (minusSign sy @ plusSign sy @ numerals_of numeralSystem @ validCharacters sy))"

definition literalCharacters :: "props \<Rightarrow> ustring option" where
  "literalCharacters p = classBody (literals (symbols p))"

text \<open>
  What \<^verbatim>\<open>setValue\<close> reads from a text once the numeral system is known: the sanitized
  text and the number.
\<close>

definition readInput :: "props \<Rightarrow> numsys \<Rightarrow> ustring \<Rightarrow> model_error + (ustring \<times> jsnum)" where
  "readInput p numeralSystem val =
     (case keptCharacters p numeralSystem of
        None \<Rightarrow> Inl RegExpOutsideFragment
      | Some allowed \<Rightarrow>
          (case literalCharacters p of
             None \<Rightarrow> Inl RegExpOutsideFragment
           | Some lits \<Rightarrow>
               (let strippedValue = sanitize (symbols p) allowed val
                in Inr (strippedValue, parsedValue p lits strippedValue))))"

text \<open>
  \<^verbatim>\<open>setValue\<close>.  A text whose number is out of range makes the function return before
  anything but the numeral system is stored; otherwise a number in range is rounded through
  the formatter into \<^verbatim>\<open>tempNum\<close>, and the sanitized text becomes the display text.
\<close>

definition setValue :: "props \<Rightarrow> ustring \<Rightarrow> hook_state \<Rightarrow> model_error + hook_state" where
  "setValue p val st =
     (let (numeralSystem, st1) = determineNumeralSystem val st
      in case readInput p numeralSystem val of
           Inl e \<Rightarrow> Inl e
         | Inr (strippedValue, newValue) \<Rightarrow>
             (if \<not> isNaN newValue
                 \<and> (js_gt newValue (maxValue p) \<or> js_lt newValue (minValue p))
              then Inr st1
              else (let st2 = (if \<not> isNaN newValue \<and> js_le newValue (maxValue p)
                                   \<and> js_ge newValue (minValue p)
                                then st1\<lparr>tempNum := roundValueUsingFormatter p newValue\<rparr>
                                else st1)
                    in Inr (st2\<lparr>inputValue := strippedValue\<rparr>))))"


text \<open>
  The state after the first render of an uncontrolled field with the given default value
  (\<open>NaN\<close> when there is none).
\<close>

definition initialState :: "props \<Rightarrow> jsnum \<Rightarrow> hook_state" where
  "initialState p defaultValue =
     \<lparr>numberValue = defaultValue,
      inputValue = (if isNaN defaultValue then [] else format p defaultValue),
      tempNum = NaN,
      currentNumeralSystem = latin,
      lastValDispatched = defaultValue,
      onChangeCalls = []\<rparr>"

section \<open>Sequences of transitions\<close>





section \<open>An example configuration\<close>

text \<open>
  A parser and a formatter to run the hook on: plain decimal notation with the minus sign
  45, the decimal point 46 and the group separator 44 of an English locale.  The formatter
  groups the two probes of the symbol resolver as that locale does and prints any other
  number as \<^verbatim>\<open>toString\<close> does.
\<close>

fun valOf :: "nat \<Rightarrow> ustring \<Rightarrow> nat option" where
  "valOf acc [] = Some acc"
| "valOf acc (c # cs) =
     (if 48 \<le> c \<and> c \<le> 57 then valOf (acc * 10 + (c - 48)) cs else None)"

definition exampleParse :: "ustring \<Rightarrow> jsnum" where
  "exampleParse s =
     (let neg = (case s of [] \<Rightarrow> False | c # r \<Rightarrow> c = 45);
          body = (case s of [] \<Rightarrow> [] | c # r \<Rightarrow> if c = 45 \<or> c = 43 then r else s);
          sg = (if neg then - 1 else 1 :: rat)
      in case split 46 (filter (\<lambda>c. c \<noteq> 44) body) of
           [i] \<Rightarrow> (if i = [] then NaN
                    else case valOf 0 i of None \<Rightarrow> NaN | Some a \<Rightarrow> js_number (sg * of_nat a))
         | [i, f] \<Rightarrow> (if i = [] \<and> f = [] then NaN
                       else case (valOf 0 i, valOf 0 f) of
                              (Some a, Some b) \<Rightarrow> js_number (sg * (of_nat a + of_nat b / 10 ^ length f))
                            | _ \<Rightarrow> NaN)
         | _ \<Rightarrow> NaN)"

definition exampleParts :: "jsnum \<Rightarrow> part list" where
  "exampleParts v =
     (if v = Num (- (10001 / 10)) then
        [(MinusSignT, [45]), (IntegerT, [49]), (GroupT, [44]), (IntegerT, [48, 48, 48]),
         (DecimalT, [46]), (FractionT, [49])]
      else if v = Num (10001 / 10) then
        [(IntegerT, [49]), (GroupT, [44]), (IntegerT, [48, 48, 48]),
         (DecimalT, [46]), (FractionT, [49])]
      else (case v of
              NaN \<Rightarrow> [(NanT, ustr ''NaN'')]
            | Num x \<Rightarrow>
                (if x < 0 then [(MinusSignT, [45])] else []) @
                (case split 46 (toString (Num \<bar>x\<bar>)) of
                   [] \<Rightarrow> []
                 | [i] \<Rightarrow> [(IntegerT, i)]
                 | i # f # r \<Rightarrow> [(IntegerT, i), (DecimalT, [46]), (FractionT, f)])))"

definition exampleProps :: "jsnum \<Rightarrow> jsnum \<Rightarrow> jsnum \<Rightarrow> props" where
  "exampleProps lo hi s =
     \<lparr>minValue = lo, maxValue = hi, step = s, accounting = False, percent = False,
      hasOnChange = True, parse = exampleParse,
      format = (\<lambda>v. concat (map snd (exampleParts v))), formatToParts = exampleParts\<rparr>"



section \<open>Evaluating the arithmetic of doubles\<close>

text \<open>
  Rules by which the simplifier computes the rounding on numerals: the floor of a fraction
  of numerals, and one step of each function that counts down its fuel.
\<close>

lemma floor_rat_numeral:
  "\<lfloor>numeral a / numeral b :: rat\<rfloor> = numeral a div numeral b"
  "\<lfloor>- (numeral a / numeral b) :: rat\<rfloor> = - numeral a div numeral b"
  "\<lfloor>1 / numeral b :: rat\<rfloor> = 1 div numeral b"
  "\<lfloor>- (1 / numeral b) :: rat\<rfloor> = - 1 div numeral b"
proof -
  show "\<lfloor>numeral a / numeral b :: rat\<rfloor> = numeral a div numeral b"
    using floor_divide_of_int_eq [of "numeral a" "numeral b", where ?'a = rat] by simp
  show "\<lfloor>- (numeral a / numeral b) :: rat\<rfloor> = - numeral a div numeral b"
    using floor_divide_of_int_eq [of "- numeral a" "numeral b", where ?'a = rat] by simp
  show "\<lfloor>1 / numeral b :: rat\<rfloor> = 1 div numeral b"
    using floor_divide_of_int_eq [of 1 "numeral b", where ?'a = rat] by simp
  show "\<lfloor>- (1 / numeral b) :: rat\<rfloor> = - 1 div numeral b"
    using floor_divide_of_int_eq [of "- 1" "numeral b", where ?'a = rat] by simp
qed

lemma scale2_numeral:
  "scale2 (numeral k) m e =
     (if m < 1048576 then scale2 (pred_numeral k) (m * 4294967296) (e - 32)
      else if m < 17592186044416 then scale2 (pred_numeral k) (m * 256) (e - 8)
      else if m < 4503599627370496 then scale2 (pred_numeral k) (m * 2) (e - 1)
      else if 38685626227668133590597632 \<le> m then scale2 (pred_numeral k) (m / 4294967296) (e + 32)
      else if 2305843009213693952 \<le> m then scale2 (pred_numeral k) (m / 256) (e + 8)
      else if 9007199254740992 \<le> m then scale2 (pred_numeral k) (m / 2) (e + 1)
      else (m, e))"
  by (simp add: numeral_eq_Suc)

lemma scale10_numeral:
  "scale10 (numeral k) m n =
     (if m < 1 then scale10 (pred_numeral k) (m * 10) (n - 1)
      else if 10 \<le> m then scale10 (pred_numeral k) (m / 10) (n + 1)
      else (m, n))"
  by (simp add: numeral_eq_Suc)

lemma shortestFrom_numeral:
  "shortestFrom (numeral f) k m n d =
     (if round64pos (of_int (roundHalfEven (m * 10 ^ k)) * pow10 (n - int k)) = d
      then of_int (roundHalfEven (m * 10 ^ k)) * pow10 (n - int k)
      else shortestFrom (pred_numeral f) (k + 1) m n d)"
  by (simp add: numeral_eq_Suc)

lemmas double_eval = scale2_numeral scale10_numeral shortestFrom_numeral floor_rat_numeral
  round64_def round64pos_def roundHalfEven_def pow2_def pow10_def shortest_def shortestPos_def
  js_number_def Let_def

text \<open>The same for the printing of a number.\<close>

lemma digitsOf_numeral:
  "digitsOf (numeral k) =
     (if (numeral k :: nat) < 10 then [48 + numeral k]
      else digitsOf (numeral k div 10) @ [48 + numeral k mod 10])"
  "digitsOf 0 = [48]"
  "digitsOf 1 = [49]"
  "digitsOf (Suc 0) = [49]"
  by (subst digitsOf.simps, simp)+

lemma decimalPlaces_numeral:
  "decimalPlaces (numeral k) a =
     (if of_int \<lfloor>a\<rfloor> = a then 0 else Suc (decimalPlaces (pred_numeral k) (a * 10)))"
  by (simp add: numeral_eq_Suc)

lemmas toString_eval = digitsOf_numeral decimalPlaces_numeral floor_rat_numeral toStringPos_def
  stripTrailingZeros_def Let_def

text \<open>
  The branch of \<^verbatim>\<open>handleDecimalOperation\<close> for whole numbers and the branch for decimals,
  each from the values of its steps.
\<close>

lemma handleDecimalOperation_whole:
  assumes "\<not> mod1_nonzero v1" "\<not> mod1_nonzero v2"
  shows "handleDecimalOperation operator v1 v2 =
           (if operator = Plus then js_add v1 v2 else js_sub v1 v2)"
  using assms unfolding handleDecimalOperation_def Let_def by (simp only: simp_thms if_False)

lemma handleDecimalOperation_decimal:
  assumes "mod1_nonzero v1 \<or> mod1_nonzero v2"
    and "max (decimalLength (split 46 (toString v1))) (decimalLength (split 46 (toString v2))) = d"
    and "math_round (js_mul v1 (Num (10 ^ d))) = i1"
    and "math_round (js_mul v2 (Num (10 ^ d))) = i2"
    and "js_div (if operator = Plus then js_add i1 i2 else js_sub i1 i2) (Num (10 ^ d)) = r"
  shows "handleDecimalOperation operator v1 v2 = r"
  unfolding handleDecimalOperation_def Let_def assms(2) assms(3) assms(4)
  using assms(1) assms(5) by (simp only: if_True)

text \<open>Adding one to a whole number from 0 to 10.\<close>

lemma handleDecimalOperation_plus_one:
  assumes "0 \<le> a" "a \<le> 10"
  shows "handleDecimalOperation Plus (Num (of_int a)) (Num 1) = Num (of_int (a + 1))"
proof -
  have "a = 0 \<or> a = 1 \<or> a = 2 \<or> a = 3 \<or> a = 4 \<or> a = 5 \<or> a = 6 \<or> a = 7 \<or> a = 8 \<or> a = 9 \<or> a = 10"
    using assms by presburger
  then show ?thesis
    by (elim disjE) (simp_all add: handleDecimalOperation_def double_eval)
qed

section \<open>The value cell and the step grid\<close>

lemma setNumberValue_numberValue: "numberValue (setNumberValue p v st) = v"
  by (simp add: setNumberValue_def smartOnChange_def Let_def)

lemma setNumberValue_tempNum: "tempNum (setNumberValue p v st) = tempNum st"
  by (simp add: setNumberValue_def smartOnChange_def Let_def)

lemma snapToStep_on_grid:
  assumes "0 < s" and "c = lo + of_int k * s"
  shows "snapToStep c lo hi s = c"
proof -
  have "(c - lo) / s = of_int k" using assms by simp
  then have "lo + of_int \<lfloor>(c - lo) / s\<rfloor> * s = c" using assms by simp
  then show ?thesis using assms(1) by (simp add: snapToStep_def Let_def)
qed

lemma clamp_on_grid:
  assumes "lo \<le> v" "v \<le> hi" "0 < s" "v = lo + of_int k * s"
  shows "clamp (Num v) (Num lo) (Num hi) (Num s) = Num v"
proof -
  have "min (max v lo) hi = v" using assms(1,2) by (simp add: min_def max_def)
  then show ?thesis using snapToStep_on_grid [OF assms(3,4)] by simp
qed

lemma clamp_above:
  assumes "lo \<le> hi" "hi \<le> v" "0 < s" "hi = lo + of_int k * s"
  shows "clamp (Num v) (Num lo) (Num hi) (Num s) = Num hi"
proof -
  have "min (max v lo) hi = hi" using assms(1,2) by (simp add: min_def max_def)
  then show ?thesis using snapToStep_on_grid [OF assms(3,4)] by simp
qed

lemma snapToStep_grid:
  assumes "0 < s"
  shows "\<exists>k::int. snapToStep c lo hi s = lo + of_int k * s"
proof -
  let ?k = "\<lfloor>(c - lo) / s\<rfloor>"
  have "snapToStep c lo hi s = lo + of_int ?k * s \<or> snapToStep c lo hi s = lo + of_int (?k + 1) * s"
    using assms by (simp add: snapToStep_def Let_def algebra_simps)
  then show ?thesis by blast
qed

lemma snapToStep_in_range:
  assumes "0 < s" "lo \<le> c" "c \<le> hi"
  shows "lo \<le> snapToStep c lo hi s \<and> snapToStep c lo hi s \<le> hi"
proof -
  define q where "q = of_int \<lfloor>(c - lo) / s\<rfloor> * s"
  have "of_int \<lfloor>(c - lo) / s\<rfloor> * s \<le> ((c - lo) / s) * s"
    by (rule mult_right_mono) (use assms(1) in simp_all)
  then have b1: "q \<le> c - lo" using assms(1) by (simp add: q_def)
  have "0 \<le> (c - lo) / s" using assms(1,2) by simp
  then have "0 \<le> \<lfloor>(c - lo) / s\<rfloor>" by simp
  then have b2: "0 \<le> q" using assms(1) by (simp add: q_def)
  have "snapToStep c lo hi s =
      (if s \<le> 0 then lo
       else if lo + q + s \<le> hi \<and> lo + q + s - c \<le> c - (lo + q) then lo + q + s else lo + q)"
    unfolding snapToStep_def Let_def q_def by (rule refl)
  then show ?thesis using b1 b2 assms by (auto split: if_splits)
qed

lemma clamp_fixed_point:
  assumes "clamp (Num v) (Num lo) (Num hi) (Num s) = Num v" and "0 < s" and "lo \<le> hi"
  shows "lo \<le> v \<and> v \<le> hi \<and> (\<exists>k::int. v = lo + of_int k * s)"
proof -
  define c where "c = min (max v lo) hi"
  have eq: "snapToStep c lo hi s = v" using assms(1) by (simp add: c_def)
  obtain k :: int where k: "snapToStep c lo hi s = lo + of_int k * s"
    using snapToStep_grid [OF assms(2)] by blast
  have "lo \<le> c" "c \<le> hi" using assms(3) by (simp_all add: c_def min_def max_def)
  then have "lo \<le> snapToStep c lo hi s \<and> snapToStep c lo hi s \<le> hi"
    using snapToStep_in_range [OF assms(2)] by blast
  then show ?thesis using eq k by auto
qed

section \<open>Incrementing an empty field in the range 0 to 10\<close>

lemma clamp_0_10_1:
  assumes "0 \<le> a"
  shows "clamp (Num (of_int a)) (Num 0) (Num 10) (Num 1) = Num (of_int (min a 10))"
proof (cases "a \<le> 10")
  case True
  have "clamp (Num (of_int a)) (Num 0) (Num 10) (Num 1) = Num (of_int a)"
    by (rule clamp_on_grid [where k = a]) (use assms True in simp_all)
  then show ?thesis using True by (simp add: min_def)
next
  case False
  have "clamp (Num (of_int a)) (Num 0) (Num 10) (Num 1) = Num 10"
    by (rule clamp_above [where k = 10]) (use False in simp_all)
  then show ?thesis using False by (simp add: min_def)
qed

lemma increment_0_10_1_from_number:
  assumes "minValue p = Num 0" "maxValue p = Num 10" "step p = Num 1"
    and "numberValue st = Num (of_int a)" "tempNum st = NaN" "0 \<le> a" "a \<le> 10"
  shows "numberValue (increment p st) = Num (of_int (min (a + 1) 10))"
    and "tempNum (increment p st) = NaN"
proof -
  have "handleDecimalOperation Plus (Num (of_int a)) (Num 1) = Num (of_int (a + 1))"
    by (rule handleDecimalOperation_plus_one) (use assms(6,7) in simp_all)
  moreover have "clamp (Num (of_int (a + 1))) (Num 0) (Num 10) (Num 1) = Num (of_int (min (a + 1) 10))"
    by (rule clamp_0_10_1) (use assms(6) in simp)
  ultimately show "numberValue (increment p st) = Num (of_int (min (a + 1) 10))"
    using assms(1-5) by (simp add: increment_def Let_def setNumberValue_numberValue)
  show "tempNum (increment p st) = NaN"
    using assms(5) by (simp add: increment_def Let_def setNumberValue_tempNum)
qed

lemma increment_0_10_1_from_empty:
  assumes "minValue p = Num 0" "maxValue p = Num 10" "step p = Num 1"
    and "numberValue st = NaN" "tempNum st = NaN"
  shows "numberValue (increment p st) = Num 1" and "tempNum (increment p st) = NaN"
proof -
  have "handleDecimalOperation Plus (Num 0) (Num 1) = Num 1"
    using handleDecimalOperation_plus_one [of 0] by simp
  moreover have "clamp (Num 1) (Num 0) (Num 10) (Num 1) = Num 1"
    using clamp_0_10_1 [of 1] by simp
  ultimately show "numberValue (increment p st) = Num 1"
    using assms by (simp add: increment_def Let_def setNumberValue_numberValue
        isMaxRange_def MIN_SAFE_INTEGER_def)
  show "tempNum (increment p st) = NaN"
    using assms(5) by (simp add: increment_def Let_def setNumberValue_tempNum)
qed

lemma increment_0_10_1_run:
  assumes "minValue p = Num 0" "maxValue p = Num 10" "step p = Num 1"
    and "numberValue st = NaN" "tempNum st = NaN"
  shows "numberValue ((increment p ^^ Suc n) st) = Num (of_int (min (int n + 1) 10))
         \<and> tempNum ((increment p ^^ Suc n) st) = NaN"
proof (induction n)
  case 0
  show ?case using increment_0_10_1_from_empty [OF assms] by simp
next
  case (Suc n)
  let ?st = "(increment p ^^ Suc n) st"
  have v: "numberValue ?st = Num (of_int (min (int n + 1) 10))" and t: "tempNum ?st = NaN"
    using Suc by simp_all
  have "numberValue (increment p ?st) = Num (of_int (min (min (int n + 1) 10 + 1) 10))"
    by (rule increment_0_10_1_from_number(1) [OF assms(1-3) v t]) simp_all
  moreover have "tempNum (increment p ?st) = NaN"
    by (rule increment_0_10_1_from_number(2) [OF assms(1-3) v t]) simp_all
  moreover have "min (min (int n + 1) 10 + 1) 10 = min (int (Suc n) + 1) 10"
    by (simp add: min_def)
  ultimately show ?case by (simp del: of_int_min)
qed

text \<open>
  C2, as the hook behaves.  With the range 0 to 10 and step 1, an empty field and no pending
  parsed value, the first \<^verbatim>\<open>increment\<close> takes \<open>min\<close> as the base and adds the step, so the
  value is 1; after \<open>n\<close> increments, for \<open>n\<close> from 1 to 10, the value is \<open>n\<close>, so nine further
  increments give 10; and every number of increments from ten on leaves the value at 10.
\<close>

theorem increment_from_empty_0_10_1:
  assumes "minValue p = Num 0" "maxValue p = Num 10" "step p = Num 1"
    and "numberValue st = NaN" "tempNum st = NaN"
  shows "numberValue (increment p st) = Num 1
         \<and> (\<forall>n. 1 \<le> n \<and> n \<le> 10 \<longrightarrow> numberValue ((increment p ^^ n) st) = Num (of_nat n))
         \<and> (\<forall>n \<ge> 10. numberValue ((increment p ^^ n) st) = Num 10)"
proof (intro conjI allI impI)
  show "numberValue (increment p st) = Num 1"
    by (rule increment_0_10_1_from_empty(1) [OF assms])
next
  fix n :: nat
  assume "1 \<le> n \<and> n \<le> 10"
  then obtain m where n: "n = Suc m" and "m \<le> 9" by (cases n) auto
  then have "min (int m + 1) 10 = int m + 1" by simp
  then show "numberValue ((increment p ^^ n) st) = Num (of_nat n)"
    using increment_0_10_1_run [OF assms, of m] n by (simp add: add.commute)
next
  fix n :: nat
  assume "10 \<le> n"
  then obtain m where n: "n = Suc m" and "9 \<le> m" by (cases n) auto
  then have "min (int m + 1) 10 = 10" by simp
  then show "numberValue ((increment p ^^ n) st) = Num 10"
    using increment_0_10_1_run [OF assms, of m] n by simp
qed

theorem increment_from_empty_0_10_1_witness:
  "numberValue (increment (exampleProps (Num 0) (Num 10) (Num 1))
      (initialState (exampleProps (Num 0) (Num 10) (Num 1)) NaN)) = Num 1
   \<and> numberValue ((increment (exampleProps (Num 0) (Num 10) (Num 1)) ^^ 10)
      (initialState (exampleProps (Num 0) (Num 10) (Num 1)) NaN)) = Num 10
   \<and> numberValue ((increment (exampleProps (Num 0) (Num 10) (Num 1)) ^^ 12)
      (initialState (exampleProps (Num 0) (Num 10) (Num 1)) NaN)) = Num 10"
proof -
  define P where "P = exampleProps (Num 0) (Num 10) (Num 1)"
  define S where "S = initialState P NaN"
  have h: "minValue P = Num 0" "maxValue P = Num 10" "step P = Num 1"
    "numberValue S = NaN" "tempNum S = NaN"
    by (simp_all add: P_def S_def exampleProps_def initialState_def)
  from increment_from_empty_0_10_1 [OF h]
  have "numberValue (increment P S) = Num 1"
    and "numberValue ((increment P ^^ 10) S) = Num (of_nat 10)"
    and "numberValue ((increment P ^^ 12) S) = Num 10"
    by auto
  then show ?thesis unfolding S_def P_def by simp
qed

text \<open>
  The first increment of the empty field does not give 0, the value the example of the
  specification names.
\<close>

theorem increment_from_empty_not_min:
  "numberValue (increment (exampleProps (Num 0) (Num 10) (Num 1))
      (initialState (exampleProps (Num 0) (Num 10) (Num 1)) NaN)) \<noteq> Num 0"
  using increment_0_10_1_from_empty(1) [of "exampleProps (Num 0) (Num 10) (Num 1)"
      "initialState (exampleProps (Num 0) (Num 10) (Num 1)) NaN"]
  by (simp add: exampleProps_def initialState_def)

section \<open>Decrementing 10 by a tenth\<close>

lemma decimal_lengths_10_tenth:
  "decimalLength (split 46 (toString (Num 10))) = 0"
  "decimalLength (split 46 (toString (Num (1 / 10)))) = 1"
  by (simp_all add: toString_eval)

lemma decimal_steps_10_tenth:
  "mod1_nonzero (Num (1 / 10))"
  "math_round (js_mul (Num 10) (Num (10 ^ 1))) = Num 100"
  "math_round (js_mul (Num (1 / 10)) (Num (10 ^ 1))) = Num 1"
  "js_div (js_sub (Num 100) (Num 1)) (Num (10 ^ 1)) = Num (99 / 10)"
  by (simp_all add: double_eval)

lemma decimal_operation_10_tenth:
  "handleDecimalOperation Minus (Num 10) (Num (1 / 10)) = Num (99 / 10)"
proof (rule handleDecimalOperation_decimal [where d = 1])
  show "mod1_nonzero (Num 10) \<or> mod1_nonzero (Num (1 / 10))"
    using decimal_steps_10_tenth(1) by (rule disjI2)
  show "max (decimalLength (split 46 (toString (Num 10))))
          (decimalLength (split 46 (toString (Num (1 / 10))))) = 1"
    unfolding decimal_lengths_10_tenth by simp
  show "math_round (js_mul (Num 10) (Num (10 ^ 1))) = Num 100"
    by (rule decimal_steps_10_tenth(2))
  show "math_round (js_mul (Num (1 / 10)) (Num (10 ^ 1))) = Num 1"
    by (rule decimal_steps_10_tenth(3))
  show "js_div (if Minus = Plus then js_add (Num 100) (Num 1) else js_sub (Num 100) (Num 1))
          (Num (10 ^ 1)) = Num (99 / 10)"
    using decimal_steps_10_tenth(4) by (simp only: operator.distinct if_False)
qed

text \<open>
  Where the subtraction of doubles is not the nearest decimal: 9.8 less 0.1 is the double
  that prints as 9.700000000000001, and the operation through integers gives 9.7.
\<close>

lemma plain_subtraction_98_tenth:
  "js_sub (Num (98 / 10)) (Num (1 / 10)) = Num (9700000000000001 / 1000000000000000)"
  by (simp add: double_eval)

lemma decimal_lengths_98_tenth:
  "decimalLength (split 46 (toString (Num (98 / 10)))) = 1"
  by (simp add: toString_eval)

lemma decimal_steps_98_tenth:
  "math_round (js_mul (Num (98 / 10)) (Num (10 ^ 1))) = Num 98"
  "js_div (js_sub (Num 98) (Num 1)) (Num (10 ^ 1)) = Num (97 / 10)"
  by (simp_all add: double_eval)

lemma decimal_operation_98_tenth:
  "handleDecimalOperation Minus (Num (98 / 10)) (Num (1 / 10)) = Num (97 / 10)"
proof (rule handleDecimalOperation_decimal [where d = 1])
  show "mod1_nonzero (Num (98 / 10)) \<or> mod1_nonzero (Num (1 / 10))"
    using decimal_steps_10_tenth(1) by (rule disjI2)
  show "max (decimalLength (split 46 (toString (Num (98 / 10)))))
          (decimalLength (split 46 (toString (Num (1 / 10))))) = 1"
    unfolding decimal_lengths_10_tenth decimal_lengths_98_tenth by simp
  show "math_round (js_mul (Num (98 / 10)) (Num (10 ^ 1))) = Num 98"
    by (rule decimal_steps_98_tenth(1))
  show "math_round (js_mul (Num (1 / 10)) (Num (10 ^ 1))) = Num 1"
    by (rule decimal_steps_10_tenth(3))
  show "js_div (if Minus = Plus then js_add (Num 98) (Num 1) else js_sub (Num 98) (Num 1))
          (Num (10 ^ 1)) = Num (97 / 10)"
    using decimal_steps_98_tenth(2) by (simp only: operator.distinct if_False)
qed

text \<open>
  At the largest safe integer the scaling itself rounds: adding a half to 9007199254740991
  gives 9007199254740990.
\<close>

lemma decimal_lengths_max_safe:
  "decimalLength (split 46 (toString (Num 9007199254740991))) = 0"
  "decimalLength (split 46 (toString (Num (1 / 2)))) = 1"
  by (simp_all add: toString_eval)

lemma decimal_steps_max_safe:
  "mod1_nonzero (Num (1 / 2))"
  "math_round (js_mul (Num 9007199254740991) (Num (10 ^ 1))) = Num 90071992547409900"
  "math_round (js_mul (Num (1 / 2)) (Num (10 ^ 1))) = Num 5"
  "js_div (js_add (Num 90071992547409900) (Num 5)) (Num (10 ^ 1)) = Num 9007199254740990"
  by (simp_all add: double_eval)

lemma decimal_operation_max_safe:
  "handleDecimalOperation Plus (Num 9007199254740991) (Num (1 / 2)) = Num 9007199254740990"
proof (rule handleDecimalOperation_decimal [where d = 1])
  show "mod1_nonzero (Num 9007199254740991) \<or> mod1_nonzero (Num (1 / 2))"
    using decimal_steps_max_safe(1) by (rule disjI2)
  show "max (decimalLength (split 46 (toString (Num 9007199254740991))))
          (decimalLength (split 46 (toString (Num (1 / 2))))) = 1"
    unfolding decimal_lengths_max_safe by simp
  show "math_round (js_mul (Num 9007199254740991) (Num (10 ^ 1))) = Num 90071992547409900"
    by (rule decimal_steps_max_safe(2))
  show "math_round (js_mul (Num (1 / 2)) (Num (10 ^ 1))) = Num 5"
    by (rule decimal_steps_max_safe(3))
  show "js_div (if Plus = Plus then js_add (Num 90071992547409900) (Num 5)
                else js_sub (Num 90071992547409900) (Num 5)) (Num (10 ^ 1))
        = Num 9007199254740990"
    using decimal_steps_max_safe(4) by (simp only: if_True refl)
qed

text \<open>
  C4. The stored value is 10, a committed value (one that clamping leaves in place), no
  parsed value is pending, the step is one tenth and the bounds contain 9.9.  Then
  \<^verbatim>\<open>handleDecimalOperation\<close> takes the branch for decimals: the operands print with 0 and 1
  decimal places, they are scaled by ten and rounded to the integers 100 and 1, the
  difference 99 is divided by ten, and the result is the double that prints as 9.9; one
  \<^verbatim>\<open>decrement\<close> stores it, and not 9.899999999999999.  The arithmetic is that of doubles:
  at 9.8 the plain subtraction of a tenth gives 9.700000000000001, where
  \<^verbatim>\<open>handleDecimalOperation\<close> gives 9.7.
\<close>

theorem decrement_10_by_tenth:
  assumes "minValue p = Num lo" "maxValue p = Num hi" "step p = Num (1 / 10)"
    and committed: "numberValue st = Num 10" "tempNum st = NaN"
      "clamp (Num 10) (Num lo) (Num hi) (Num (1 / 10)) = Num 10"
    and contains: "lo \<le> 99 / 10" "99 / 10 \<le> hi"
  shows "mod1_nonzero (Num (1 / 10))
         \<and> decimalLength (split 46 (toString (Num 10))) = 0
         \<and> decimalLength (split 46 (toString (Num (1 / 10)))) = 1
         \<and> math_round (js_mul (Num 10) (Num (10 ^ 1))) = Num 100
         \<and> math_round (js_mul (Num (1 / 10)) (Num (10 ^ 1))) = Num 1
         \<and> js_div (js_sub (Num 100) (Num 1)) (Num (10 ^ 1)) = Num (99 / 10)
         \<and> handleDecimalOperation Minus (Num 10) (Num (1 / 10)) = Num (99 / 10)
         \<and> numberValue (decrement p st) = Num (99 / 10)
         \<and> numberValue (decrement p st) \<noteq> Num (9899999999999999 / 1000000000000000)
         \<and> js_sub (Num (98 / 10)) (Num (1 / 10)) = Num (9700000000000001 / 1000000000000000)
         \<and> handleDecimalOperation Minus (Num (98 / 10)) (Num (1 / 10)) = Num (97 / 10)"
proof -
  have "lo \<le> hi" using contains by simp
  with clamp_fixed_point [OF committed(3)] obtain k :: int where k: "10 = lo + of_int k * (1 / 10)"
    by auto
  have "of_int (k - 1) * (1 / 10 :: rat) = of_int k * (1 / 10) - 1 / 10"
    by (simp add: field_simps)
  with k have "99 / 10 = lo + of_int (k - 1) * (1 / 10)" by linarith
  then have "clamp (Num (99 / 10)) (Num lo) (Num hi) (Num (1 / 10)) = Num (99 / 10)"
    using contains by (intro clamp_on_grid [where k = "k - 1"]) simp_all
  then have d: "numberValue (decrement p st) = Num (99 / 10)"
    using assms(1-5) decimal_operation_10_tenth
    by (simp add: decrement_def Let_def setNumberValue_numberValue del: clamp.simps)
  have n: "numberValue (decrement p st) \<noteq> Num (9899999999999999 / 1000000000000000)"
    unfolding d by simp
  show ?thesis
    using d n decimal_operation_10_tenth decimal_lengths_10_tenth decimal_steps_10_tenth
      plain_subtraction_98_tenth decimal_operation_98_tenth
    by blast
qed

theorem decrement_10_by_tenth_witness:
  "handleDecimalOperation Minus (Num 10) (Num (1 / 10)) = Num (99 / 10)
   \<and> numberValue (decrement (exampleProps (Num 0) (Num 20) (Num (1 / 10)))
        (initialState (exampleProps (Num 0) (Num 20) (Num (1 / 10))) (Num 10))) = Num (99 / 10)
   \<and> handleDecimalOperation Minus (Num (98 / 10)) (Num (1 / 10)) = Num (97 / 10)
   \<and> js_sub (Num (98 / 10)) (Num (1 / 10)) \<noteq> Num (97 / 10)"
proof -
  have c: "clamp (Num 10) (Num 0) (Num 20) (Num (1 / 10)) = Num 10" by code_simp
  have h: "minValue (exampleProps (Num 0) (Num 20) (Num (1 / 10))) = Num 0"
    "maxValue (exampleProps (Num 0) (Num 20) (Num (1 / 10))) = Num 20"
    "step (exampleProps (Num 0) (Num 20) (Num (1 / 10))) = Num (1 / 10)"
    "numberValue (initialState (exampleProps (Num 0) (Num 20) (Num (1 / 10))) (Num 10)) = Num 10"
    "tempNum (initialState (exampleProps (Num 0) (Num 20) (Num (1 / 10))) (Num 10)) = NaN"
    by (simp_all add: exampleProps_def initialState_def)
  have r: "(0 :: rat) \<le> 99 / 10" "(99 / 10 :: rat) \<le> 20" by simp_all
  from decrement_10_by_tenth [OF h c r]
  have "handleDecimalOperation Minus (Num 10) (Num (1 / 10)) = Num (99 / 10)"
    and "numberValue (decrement (exampleProps (Num 0) (Num 20) (Num (1 / 10)))
        (initialState (exampleProps (Num 0) (Num 20) (Num (1 / 10))) (Num 10))) = Num (99 / 10)"
    and "handleDecimalOperation Minus (Num (98 / 10)) (Num (1 / 10)) = Num (97 / 10)"
    and "js_sub (Num (98 / 10)) (Num (1 / 10)) = Num (9700000000000001 / 1000000000000000)"
    by blast+
  then show ?thesis by simp
qed

section \<open>Values stored by the operations\<close>

lemma increment_value:
  "tempNum st = NaN \<Longrightarrow> numberValue st = Num v \<Longrightarrow>
   numberValue (increment p st) =
     clamp (handleDecimalOperation Plus (Num v) (if \<not> isNaN (step p) then step p else Num 1))
       (minValue p) (maxValue p) (step p)"
  by (simp add: increment_def Let_def setNumberValue_numberValue)

lemma decrement_value:
  "tempNum st = NaN \<Longrightarrow> numberValue st = Num v \<Longrightarrow>
   numberValue (decrement p st) =
     clamp (handleDecimalOperation Minus (Num v) (if \<not> isNaN (step p) then step p else Num 1))
       (minValue p) (maxValue p) (step p)"
  by (simp add: decrement_def Let_def setNumberValue_numberValue)

lemma isNaN_iff: "isNaN x = (x = NaN)"
  by (cases x) simp_all

lemma increment_clears_pending: "tempNum (increment p st) = NaN"
  by (simp add: increment_def Let_def setNumberValue_tempNum isNaN_iff)







section \<open>Change notifications\<close>




















section \<open>The pending parsed value\<close>



section \<open>The example configuration, evaluated\<close>

lemma exampleProps_fields:
  "minValue (exampleProps lo hi s) = lo"
  "maxValue (exampleProps lo hi s) = hi"
  "step (exampleProps lo hi s) = s"
  "accounting (exampleProps lo hi s) = False"
  "percent (exampleProps lo hi s) = False"
  "hasOnChange (exampleProps lo hi s) = True"
  "parse (exampleProps lo hi s) = exampleParse"
  "format (exampleProps lo hi s) = (\<lambda>v. concat (map snd (exampleParts v)))"
  "formatToParts (exampleProps lo hi s) = exampleParts"
  by (simp_all add: exampleProps_def)

lemma exampleParts_probes:
  "exampleParts (Num (- (10001 / 10))) =
     [(MinusSignT, [45]), (IntegerT, [49]), (GroupT, [44]), (IntegerT, [48, 48, 48]),
      (DecimalT, [46]), (FractionT, [49])]"
  "exampleParts (Num (10001 / 10)) =
     [(IntegerT, [49]), (GroupT, [44]), (IntegerT, [48, 48, 48]),
      (DecimalT, [46]), (FractionT, [49])]"
  by (simp_all add: exampleParts_def)

lemma symbols_example_unsigned:
  "symbols (exampleProps (Num 0) (Num 100) s) =
   \<lparr>minusSign = [], plusSign = [], decimal = Some [46],
    validCharacters = [92, 44, 92, 46], literals = [92, 44]\<rparr>"
  by (simp add: symbols_def exampleProps_fields exampleParts_probes find_part_def js_ge_def Let_def)

lemma symbols_example_signed:
  "symbols (exampleProps (Num (- 100)) (Num 100) s) =
   \<lparr>minusSign = [45], plusSign = [], decimal = Some [46],
    validCharacters = [92, 44, 92, 46], literals = [92, 44]\<rparr>"
  by (simp add: symbols_def exampleProps_fields exampleParts_probes find_part_def js_ge_def Let_def)

lemma keptCharacters_example:
  "keptCharacters (exampleProps (Num 0) (Num 100) s) latin =
     Some [48, 49, 50, 51, 52, 53, 54, 55, 56, 57, 44, 46]"
  "keptCharacters (exampleProps (Num (- 100)) (Num 100) s) latin =
     Some [45, 48, 49, 50, 51, 52, 53, 54, 55, 56, 57, 44, 46]"
  "keptCharacters (exampleProps (Num 0) (Num 100) s) hanidec =
     Some [12295, 19968, 20108, 19977, 22235, 20116, 20845, 19971, 20843, 20061, 44, 46]"
  by (simp_all add: keptCharacters_def symbols_example_unsigned symbols_example_signed
      escape_letters_def ustr_def)

lemma literalCharacters_example:
  "literalCharacters (exampleProps (Num 0) (Num 100) s) = Some [44]"
  "literalCharacters (exampleProps (Num (- 100)) (Num 100) s) = Some [44]"
  by (simp_all add: literalCharacters_def symbols_example_unsigned symbols_example_signed
      escape_letters_def ustr_def)

lemma indexOf_empty: "indexOf val [] = 0"
  by (cases val) simp_all

lemma replace_first_empty: "replace_first val [] = val"
  by (cases val) simp_all

lemma replaceAllButFirstOccurrence_empty: "replaceAllButFirstOccurrence val (Some []) = val"
  by (simp add: replaceAllButFirstOccurrence_def indexOf_empty replace_first_empty)

section \<open>Repeated signs in the sanitizer\<close>

lemma three_minus_signs:
  "replaceAllButFirstOccurrence [45, 45, 45, 53] (Some [45]) = [45, 45, 53]"
  by (simp add: replaceAllButFirstOccurrence_def)

lemma no_point_in_minus_signs:
  "replaceAllButFirstOccurrence [45, 45, 53] (Some [46]) = [45, 45, 53]"
  by (simp add: replaceAllButFirstOccurrence_def)

lemma sanitize_three_minus_signs:
  "sanitize \<lparr>minusSign = [45], plusSign = [], decimal = Some [46],
      validCharacters = [92, 44, 92, 46], literals = [92, 44]\<rparr>
     [45, 48, 49, 50, 51, 52, 53, 54, 55, 56, 57, 44, 46] [45, 45, 45, 53] = [45, 45, 53]"
  by (simp add: sanitize_def three_minus_signs replaceAllButFirstOccurrence_empty
      no_point_in_minus_signs)

lemma exampleParse_two_minus_signs: "exampleParse [45, 45, 53] = NaN"
  by (simp add: exampleParse_def)

lemma readInput_three_minus_signs:
  "readInput (exampleProps (Num (- 100)) (Num 100) NaN) latin [45, 45, 45, 53] = Inr ([45, 45, 53], NaN)"
  by (simp add: readInput_def keptCharacters_example literalCharacters_example
      symbols_example_signed sanitize_three_minus_signs parsedValue_def
      exampleProps_fields exampleParse_two_minus_signs)

lemma determine_example_latin:
  "determineNumeralSystem [45, 45, 45, 53] st = (latin, st\<lparr>currentNumeralSystem := latin\<rparr>)"
  "determineNumeralSystem [49, 53, 48] st = (latin, st\<lparr>currentNumeralSystem := latin\<rparr>)"
  by (simp_all add: determineNumeralSystem_def numberingSystems_def)

text \<open>
  C3 does not hold of the hook: \<^verbatim>\<open>replaceAllButFirstOccurrence\<close> removes one further
  occurrence only, since \<^verbatim>\<open>replace\<close> with a string pattern replaces the first match.  With
  the minus sign allowed (range -100 to 100), the text of three minus signs and the digit 5
  is displayed with two minus signs.
\<close>

theorem setValue_keeps_second_minus_sign:
  "ustr ''---5'' = [45, 45, 45, 53] \<and> ustr ''--5'' = [45, 45, 53]
   \<and> minusSign (symbols (exampleProps (Num (- 100)) (Num 100) NaN)) = [45]
   \<and> replaceAllButFirstOccurrence [45, 45, 45, 53] (Some [45]) = [45, 45, 53]
   \<and> setValue (exampleProps (Num (- 100)) (Num 100) NaN) [45, 45, 45, 53]
        (initialState (exampleProps (Num (- 100)) (Num 100) NaN) NaN)
      = Inr ((initialState (exampleProps (Num (- 100)) (Num 100) NaN) NaN)\<lparr>inputValue := [45, 45, 53]\<rparr>)"
  by (simp add: setValue_def determine_example_latin readInput_three_minus_signs
      three_minus_signs symbols_example_signed initialState_def ustr_def)

section \<open>Text out of range\<close>

lemma determineLoop_state:
  "snd (determineLoop systems val st) =
     st\<lparr>currentNumeralSystem := currentNumeralSystem (snd (determineLoop systems val st))\<rparr>"
  by (induction systems val st rule: determineLoop.induct) simp_all

lemma determineNumeralSystem_state:
  "snd (determineNumeralSystem val st) =
     st\<lparr>currentNumeralSystem := currentNumeralSystem (snd (determineNumeralSystem val st))\<rparr>"
  unfolding determineNumeralSystem_def by (rule determineLoop_state)

text \<open>
  C1, as the hook behaves.  When the number read from the text (the parse of the parse-ready
  remainder, negated for an accounting format in parentheses, divided by 100 for a percent
  format) is greater than \<open>maxValue\<close> or less than \<open>minValue\<close>, \<^verbatim>\<open>setValue\<close> returns
  early: the value, the pending parsed value and the display text stay as they were, and
  only the numeral system detected in the text is stored.
\<close>

theorem setValue_out_of_range:
  assumes "readInput p (fst (determineNumeralSystem val st)) val = Inr (strippedValue, newValue)"
    and "\<not> isNaN newValue"
    and "js_gt newValue (maxValue p) \<or> js_lt newValue (minValue p)"
  shows "setValue p val st =
           Inr (st\<lparr>currentNumeralSystem := currentNumeralSystem (snd (determineNumeralSystem val st))\<rparr>)"
proof -
  obtain sys st1 where d: "determineNumeralSystem val st = (sys, st1)"
    by (cases "determineNumeralSystem val st")
  have "setValue p val st = Inr st1"
    using assms d by (simp add: setValue_def)
  moreover have "st1 = st\<lparr>currentNumeralSystem := currentNumeralSystem st1\<rparr>"
    using determineNumeralSystem_state [of val st] d by simp
  ultimately show ?thesis using d by simp
qed

lemma sanitize_150:
  "sanitize \<lparr>minusSign = [], plusSign = [], decimal = Some [46],
      validCharacters = [92, 44, 92, 46], literals = [92, 44]\<rparr>
     [48, 49, 50, 51, 52, 53, 54, 55, 56, 57, 44, 46] [49, 53, 48] = [49, 53, 48]"
  by (simp add: sanitize_def replaceAllButFirstOccurrence_empty)
     (simp add: replaceAllButFirstOccurrence_def)

lemma exampleParse_150: "exampleParse [49, 53, 48] = Num 150"
  by (simp add: exampleParse_def double_eval)

lemma readInput_150:
  "readInput (exampleProps (Num 0) (Num 100) NaN) latin [49, 53, 48] = Inr ([49, 53, 48], Num 150)"
  by (simp add: readInput_def keptCharacters_example literalCharacters_example
      symbols_example_unsigned sanitize_150 parsedValue_def
      exampleProps_fields exampleParse_150)

theorem setValue_out_of_range_witness:
  "setValue (exampleProps (Num 0) (Num 100) NaN) [49, 53, 48]
     \<lparr>numberValue = Num 7, inputValue = [55], tempNum = NaN, currentNumeralSystem = hanidec,
      lastValDispatched = Num 7, onChangeCalls = []\<rparr>
   = Inr \<lparr>numberValue = Num 7, inputValue = [55], tempNum = NaN, currentNumeralSystem = latin,
      lastValDispatched = Num 7, onChangeCalls = []\<rparr>"
  using setValue_out_of_range [of "exampleProps (Num 0) (Num 100) NaN" "[49, 53, 48]"
      "\<lparr>numberValue = Num 7, inputValue = [55], tempNum = NaN, currentNumeralSystem = hanidec,
        lastValDispatched = Num 7, onChangeCalls = []\<rparr>" "[49, 53, 48]" "Num 150"]
  by (simp add: determine_example_latin readInput_150 exampleProps_fields js_gt_def)

text \<open>
  The display text is not set to the sanitized text: typing 150 into the empty field with
  the range 0 to 100 leaves the display text empty.
\<close>

theorem setValue_out_of_range_keeps_display_text:
  "ustr ''150'' = [49, 53, 48]
   \<and> readInput (exampleProps (Num 0) (Num 100) NaN) latin [49, 53, 48] = Inr ([49, 53, 48], Num 150)
   \<and> js_gt (Num 150) (maxValue (exampleProps (Num 0) (Num 100) NaN))
   \<and> setValue (exampleProps (Num 0) (Num 100) NaN) [49, 53, 48]
        (initialState (exampleProps (Num 0) (Num 100) NaN) NaN)
      = Inr (initialState (exampleProps (Num 0) (Num 100) NaN) NaN)
   \<and> inputValue (initialState (exampleProps (Num 0) (Num 100) NaN) NaN) \<noteq> [49, 53, 48]"
  by (simp add: setValue_def determine_example_latin readInput_150 exampleProps_fields js_gt_def
      initialState_def ustr_def)

section \<open>What the sanitizer keeps\<close>
















section \<open>Han decimal input\<close>


lemma setValue_numeral_system:
  assumes "setValue p val st = Inr st'"
  shows "currentNumeralSystem st' = currentNumeralSystem (snd (determineNumeralSystem val st))"
proof -
  obtain sys st1 where d: "determineNumeralSystem val st = (sys, st1)"
    by (cases "determineNumeralSystem val st")
  show ?thesis using assms d
    by (auto simp: setValue_def Let_def split: sum.splits if_splits)
qed




section \<open>Text without digits\<close>

lemma determineLoop_no_match:
  "\<forall>char \<in> set val. \<forall>q \<in> set systems. char \<notin> set (snd q) \<Longrightarrow>
   determineLoop systems val st = (latin, st)"
  by (induction systems) (auto simp: list_ex_iff)

text \<open>
  C9. A text none of whose characters is a digit of a known numeral system is classified as
  \<open>latin\<close>, and the state, in particular the stored \<^verbatim>\<open>currentNumeralSystem\<close>, is returned
  as it was; so \<^verbatim>\<open>setValue\<close> of such a text leaves \<^verbatim>\<open>currentNumeralSystem\<close> unchanged.
\<close>

theorem determineNumeralSystem_no_digit:
  assumes "\<forall>char \<in> set val. \<forall>sys. char \<notin> set (numerals_of sys)"
  shows "determineNumeralSystem val st = (latin, st)
         \<and> (\<forall>p st'. setValue p val st = Inr st' \<longrightarrow>
               currentNumeralSystem st' = currentNumeralSystem st)"
proof -
  have "\<forall>char \<in> set val. \<forall>q \<in> set numberingSystems. char \<notin> set (snd q)"
  proof (intro ballI)
    fix char q
    assume c: "char \<in> set val" and q: "q \<in> set numberingSystems"
    from q have "snd q = numerals_of (fst q)"
      by (auto simp: numberingSystems_def simp del: numerals_of.simps)
    with assms c show "char \<notin> set (snd q)" by metis
  qed
  then have d: "determineNumeralSystem val st = (latin, st)"
    unfolding determineNumeralSystem_def by (rule determineLoop_no_match)
  then show ?thesis using setValue_numeral_system [of _ val st] by simp
qed

theorem determineNumeralSystem_no_digit_witness:
  "determineNumeralSystem (ustr ''-+.,abc'')
     \<lparr>numberValue = NaN, inputValue = [], tempNum = NaN, currentNumeralSystem = hanidec,
      lastValDispatched = NaN, onChangeCalls = []\<rparr>
   = (latin, \<lparr>numberValue = NaN, inputValue = [], tempNum = NaN, currentNumeralSystem = hanidec,
      lastValDispatched = NaN, onChangeCalls = []\<rparr>)"
proof -
  have "\<forall>char \<in> set (ustr ''-+.,abc''). \<forall>sys. char \<notin> set (numerals_of sys)"
  proof (intro ballI allI)
    fix char sys
    assume "char \<in> set (ustr ''-+.,abc'')"
    then show "char \<notin> set (numerals_of sys)"
      by (cases sys) (auto simp: ustr_def)
  qed
  then show ?thesis using determineNumeralSystem_no_digit by blast
qed

section \<open>Increment and decrement with a step below one millionth\<close>

lemma toString_tiny: "toString (Num (5 / 10000000)) = [53, 101, 45, 55]"
  by (simp add: toString_eval)

lemma decimal_lengths_tiny:
  "decimalLength (split 46 (toString (Num (5 / 10000000)))) = 0"
  "decimalLength (split 46 (toString (Num 0))) = 0"
  unfolding toString_tiny by simp_all

lemma decimal_steps_tiny:
  "mod1_nonzero (Num (5 / 10000000))"
  "math_round (js_mul (Num (5 / 10000000)) (Num (10 ^ 0))) = Num 0"
  "math_round (js_mul (Num 0) (Num (10 ^ 0))) = Num 0"
  "js_div (js_add (Num 0) (Num 0)) (Num (10 ^ 0)) = Num 0"
  "js_div (js_sub (Num 0) (Num 0)) (Num (10 ^ 0)) = Num 0"
  by (simp_all add: double_eval)

lemma tiny_step_operations:
  "handleDecimalOperation Plus (Num (5 / 10000000)) (Num (5 / 10000000)) = Num 0"
  "handleDecimalOperation Minus (Num 0) (Num (5 / 10000000)) = Num 0"
proof -
  show "handleDecimalOperation Plus (Num (5 / 10000000)) (Num (5 / 10000000)) = Num 0"
  proof (rule handleDecimalOperation_decimal [where d = 0])
    show "mod1_nonzero (Num (5 / 10000000)) \<or> mod1_nonzero (Num (5 / 10000000))"
      using decimal_steps_tiny(1) by (rule disjI1)
    show "max (decimalLength (split 46 (toString (Num (5 / 10000000)))))
            (decimalLength (split 46 (toString (Num (5 / 10000000))))) = 0"
      unfolding decimal_lengths_tiny by simp
    show "math_round (js_mul (Num (5 / 10000000)) (Num (10 ^ 0))) = Num 0"
      by (rule decimal_steps_tiny(2))
    show "math_round (js_mul (Num (5 / 10000000)) (Num (10 ^ 0))) = Num 0"
      by (rule decimal_steps_tiny(2))
    show "js_div (if Plus = Plus then js_add (Num 0) (Num 0) else js_sub (Num 0) (Num 0))
            (Num (10 ^ 0)) = Num 0"
      using decimal_steps_tiny(4) by (simp only: if_True refl)
  qed
  show "handleDecimalOperation Minus (Num 0) (Num (5 / 10000000)) = Num 0"
  proof (rule handleDecimalOperation_decimal [where d = 0])
    show "mod1_nonzero (Num 0) \<or> mod1_nonzero (Num (5 / 10000000))"
      using decimal_steps_tiny(1) by (rule disjI2)
    show "max (decimalLength (split 46 (toString (Num 0))))
            (decimalLength (split 46 (toString (Num (5 / 10000000))))) = 0"
      unfolding decimal_lengths_tiny by simp
    show "math_round (js_mul (Num 0) (Num (10 ^ 0))) = Num 0"
      by (rule decimal_steps_tiny(3))
    show "math_round (js_mul (Num (5 / 10000000)) (Num (10 ^ 0))) = Num 0"
      by (rule decimal_steps_tiny(2))
    show "js_div (if Minus = Plus then js_add (Num 0) (Num 0) else js_sub (Num 0) (Num 0))
            (Num (10 ^ 0)) = Num 0"
      using decimal_steps_tiny(5) by (simp only: operator.distinct if_False)
  qed
qed

lemma tiny_step_grid:
  "clamp (Num (5 / 10000000)) (Num (- 1)) (Num 1) (Num (5 / 10000000)) = Num (5 / 10000000)"
  "clamp (Num (5 / 10000000 + 5 / 10000000)) (Num (- 1)) (Num 1) (Num (5 / 10000000))
     = Num (5 / 10000000 + 5 / 10000000)"
  "clamp (Num 0) (Num (- 1)) (Num 1) (Num (5 / 10000000)) = Num 0"
  by code_simp+

text \<open>
  C5 does not hold of the hook.  \<^verbatim>\<open>handleDecimalOperation\<close> counts decimal places in the
  text of \<^verbatim>\<open>toString\<close>, which prints 0.0000005 in exponent notation, without a point.
  With value and step 0.0000005 in the range -1 to 1 (value and value plus step are inside
  the bounds and on the step grid) the multiplier is 1, both operands round to 0,
  \<^verbatim>\<open>increment\<close> stores 0 and the following \<^verbatim>\<open>decrement\<close> stores 0, not the value the
  field started with.
\<close>

theorem increment_decrement_tiny_step:
  "ustr ''5e-7'' = [53, 101, 45, 55]
   \<and> toString (Num (5 / 10000000)) = [53, 101, 45, 55]
   \<and> clamp (Num (5 / 10000000)) (Num (- 1)) (Num 1) (Num (5 / 10000000)) = Num (5 / 10000000)
   \<and> clamp (Num (5 / 10000000 + 5 / 10000000)) (Num (- 1)) (Num 1) (Num (5 / 10000000))
       = Num (5 / 10000000 + 5 / 10000000)
   \<and> handleDecimalOperation Plus (Num (5 / 10000000)) (Num (5 / 10000000)) = Num 0
   \<and> numberValue (increment (exampleProps (Num (- 1)) (Num 1) (Num (5 / 10000000)))
        (initialState (exampleProps (Num (- 1)) (Num 1) (Num (5 / 10000000))) (Num (5 / 10000000))))
       = Num 0
   \<and> numberValue (decrement (exampleProps (Num (- 1)) (Num 1) (Num (5 / 10000000)))
        (increment (exampleProps (Num (- 1)) (Num 1) (Num (5 / 10000000)))
          (initialState (exampleProps (Num (- 1)) (Num 1) (Num (5 / 10000000))) (Num (5 / 10000000)))))
       = Num 0"
proof -
  define P where "P = exampleProps (Num (- 1)) (Num 1) (Num (5 / 10000000))"
  define S where "S = initialState P (Num (5 / 10000000))"
  have f: "minValue P = Num (- 1)" "maxValue P = Num 1" "step P = Num (5 / 10000000)"
    by (simp_all add: P_def exampleProps_fields)
  have s: "tempNum S = NaN" "numberValue S = Num (5 / 10000000)"
    by (simp_all add: S_def initialState_def)
  have i: "numberValue (increment P S) = Num 0"
    using increment_value [OF s, of P] tiny_step_operations(1) tiny_step_grid(3)
    by (simp add: f del: clamp.simps)
  have t: "tempNum (increment P S) = NaN" by (rule increment_clears_pending)
  have d: "numberValue (decrement P (increment P S)) = Num 0"
    using decrement_value [OF t i, of P] tiny_step_operations(2) tiny_step_grid(3)
    by (simp add: f del: clamp.simps)
  show ?thesis
    using i d toString_tiny tiny_step_operations(1) tiny_step_grid(1,2)
    unfolding S_def P_def by (simp add: ustr_def del: clamp.simps)
qed

end
